theory Spec2Isabelle
  imports Complex_Main
begin

section \<open>Python values and errors\<close>

text \<open>
  The numbers of the program are Python floats (and ints promoted to floats by true
  division). They are modelled as exact reals: rounding error of the floating-point
  unit is outside this development. Exceptions are values of the type \<open>error\<close>.
\<close>

datatype error = TypeError | ZeroDivisionError | KeyError | StopIteration | AttributeError

text \<open>Python 3 \<open>round(x)\<close> with one argument: the nearest integer, a tie going to
  the even neighbour.\<close>

definition py_round :: "real \<Rightarrow> int" where
  "py_round x =
     (let f = \<lfloor>x\<rfloor>; d = x - of_int f
      in if d < 1 / 2 then f
         else if 1 / 2 < d then f + 1
         else if even f then f else f + 1)"

text \<open>Python \<open>int(x)\<close> of a float: truncation towards zero.\<close>

definition py_int :: "real \<Rightarrow> int" where
  "py_int x = (if 0 \<le> x then \<lfloor>x\<rfloor> else \<lceil>x\<rceil>)"

text \<open>Python \<open>range(n)\<close>: empty when \<open>n \<le> 0\<close>.\<close>

definition py_range :: "int \<Rightarrow> int list" where
  "py_range n = map int [0..<nat n]"

text \<open>Python \<open>str(i)\<close> of an int: decimal digits, a minus sign for a negative one.\<close>

definition digit_char :: "nat \<Rightarrow> char" where
  "digit_char d = ''0123456789'' ! d"

fun str_nat :: "nat \<Rightarrow> string" where
  "str_nat n = (if n < 10 then [digit_char n] else str_nat (n div 10) @ [digit_char (n mod 10)])"

definition str :: "int \<Rightarrow> string" where
  "str i = (if i < 0 then CHR ''-'' # str_nat (nat (- i)) else str_nat (nat i))"

text \<open>\<open>numpy.isclose(a, b)\<close> with its default tolerances \<open>rtol = 1e-05\<close> and
  \<open>atol = 1e-08\<close>: \<open>|a - b| <= atol + rtol * |b|\<close>.\<close>

definition isclose :: "real \<Rightarrow> real \<Rightarrow> bool" where
  "isclose a b = (\<bar>a - b\<bar> \<le> 1 / 10 ^ 8 + 1 / 10 ^ 5 * \<bar>b\<bar>)"

section \<open>The finite element model used by the wall panel\<close>

text \<open>
  The classes \<open>FEModel3D\<close>, \<open>Node3D\<close>, \<open>Quad3D\<close> and the material class are imported
  by the sources and not part of them. A node has a key, a position and six restraint
  flags; a quadrilateral has a key, four ordered corner references by key, a thickness,
  two material constants and a list of pressures, each tagged with a name.
\<close>

record Node3D =
  Name :: string
  X :: real
  Y :: real
  Z :: real
  SupportDX :: bool
  SupportDY :: bool
  SupportDZ :: bool
  SupportRX :: bool
  SupportRY :: bool
  SupportRZ :: bool

record Quad3D =
  qName :: string
  iNode :: string
  jNode :: string
  mNode :: string
  nNode :: string
  q_t :: real
  q_E :: real
  q_nu :: real
  pressures :: "(real \<times> string) list"

record Material =
  fy :: real

record FEModel3D =
  Nodes :: "Node3D list"
  Quads :: "Quad3D list"
  materials :: "(string \<times> Material) list"

text \<open>Modelled from the spec: \<open>FEModel3D()\<close>, the constructor of the absent model
  class; a new model owns no node, no element and no material.\<close>

definition FEModel3D_init :: FEModel3D where
  "FEModel3D_init = \<lparr>Nodes = [], Quads = [], materials = []\<rparr>"

text \<open>Modelled from the spec: \<open>FEModel3D.AddNode\<close>, the absent "create node" service;
  it appends a node with the given key and position and no restraint.\<close>

definition AddNode :: "string \<Rightarrow> real \<Rightarrow> real \<Rightarrow> real \<Rightarrow> FEModel3D \<Rightarrow> FEModel3D" where
  "AddNode name x y z model =
     model\<lparr>Nodes := Nodes model @
       [\<lparr>Name = name, X = x, Y = y, Z = z,
         SupportDX = False, SupportDY = False, SupportDZ = False,
         SupportRX = False, SupportRY = False, SupportRZ = False\<rparr>]\<rparr>"

text \<open>Modelled from the spec: \<open>FEModel3D.AddQuad\<close>, the absent "create quadrilateral"
  service; it appends an element that references its four corner nodes by key and has
  no pressure yet.\<close>

definition AddQuad ::
  "string \<Rightarrow> string \<Rightarrow> string \<Rightarrow> string \<Rightarrow> string \<Rightarrow> real \<Rightarrow> real \<Rightarrow> real \<Rightarrow> FEModel3D \<Rightarrow> FEModel3D" where
  "AddQuad name i_node j_node m_node n_node t e v model =
     model\<lparr>Quads := Quads model @
       [\<lparr>qName = name, iNode = i_node, jNode = j_node, mNode = m_node, nNode = n_node,
         q_t = t, q_E = e, q_nu = v, pressures = []\<rparr>]\<rparr>"

text \<open>Modelled from the spec: \<open>FEModel3D.GetNode\<close>, the absent lookup of a node by its
  key; the first node of the model that carries the key.\<close>

definition GetNode :: "FEModel3D \<Rightarrow> string \<Rightarrow> Node3D option" where
  "GetNode model name = find (\<lambda>node. Name node = name) (Nodes model)"

section \<open>Section.py: the section capacity model\<close>

subsection \<open>Construction\<close>

text \<open>
  An object under construction is its attribute dictionary. A call binds the positional
  arguments to the parameters of the callee; with neither defaults nor starred
  parameters, a call whose argument count differs from the parameter count raises
  \<open>TypeError\<close> before the body of the callee runs.
\<close>

datatype pyval =
    VModel FEModel3D
  | VStr string
  | VFloat real
  | VComplex complex
  | VMaterial Material

type_synonym pyobj = "string \<rightharpoonup> pyval"

definition bind_args :: "string list \<Rightarrow> pyval list \<Rightarrow> error + (string \<rightharpoonup> pyval)" where
  "bind_args params args =
     (if length args = length params then Inr (map_of (zip params args)) else Inl TypeError)"

text \<open>\<open>Section.__init__(self, model, name, A, Iy, Iz, J)\<close>: six parameters after
  \<open>self\<close>, each stored as an attribute of the same name.\<close>

definition Section_init :: "pyval list \<Rightarrow> pyobj \<Rightarrow> pyobj \<times> error option" where
  "Section_init args self =
     (case bind_args [''model'', ''name'', ''A'', ''Iy'', ''Iz'', ''J''] args of
        Inl e \<Rightarrow> (self, Some e)
      | Inr local \<Rightarrow>
          (self(''model'' := local ''model'', ''name'' := local ''name'',
                ''A'' := local ''A'', ''Iy'' := local ''Iy'', ''Iz'' := local ''Iz'',
                ''J'' := local ''J''), None))"

text \<open>\<open>x**0.5\<close> of a float: the square root, a complex number for a negative base.\<close>

definition py_pow_half :: "real \<Rightarrow> pyval" where
  "py_pow_half x = (if 0 \<le> x then VFloat (sqrt x) else VComplex (Complex 0 (sqrt (- x))))"

text \<open>\<open>SteelSection.__init__(self, model, name, A, Iy, Iz, J, Zy, Zz, material_name)\<close>.
  Its first statement calls \<open>Section.__init__\<close> with seven arguments after \<open>self\<close>:
  \<open>model, name, A, Iy, Iz, J, material_name\<close>.\<close>

definition SteelSection_init ::
  "FEModel3D \<Rightarrow> string \<Rightarrow> real \<Rightarrow> real \<Rightarrow> real \<Rightarrow> real \<Rightarrow> real \<Rightarrow> real \<Rightarrow> string \<Rightarrow> pyobj
     \<Rightarrow> pyobj \<times> error option" where
  "SteelSection_init model name a iy iz j zy zz material_name self =
     (case Section_init
             [VModel model, VStr name, VFloat a, VFloat iy, VFloat iz, VFloat j, VStr material_name]
             self of
        (self1, Some e) \<Rightarrow> (self1, Some e)
      | (self1, None) \<Rightarrow>
          if a = 0 then (self1, Some ZeroDivisionError)
          else
            let self2 = self1(''ry'' \<mapsto> py_pow_half (iy / a));
                self3 = self2(''rz'' \<mapsto> py_pow_half (iz / a));
                self4 = self3(''Zy'' \<mapsto> VFloat zy);
                self5 = self4(''Zz'' \<mapsto> VFloat zz)
            in (case map_of (materials model) material_name of
                  None \<Rightarrow> (self5, Some KeyError)
                | Some m \<Rightarrow> (self5(''material'' \<mapsto> VMaterial m), None)))"

subsection \<open>Yield surface and gradient\<close>

text \<open>
  \<open>Phi\<close> and \<open>G\<close> of \<open>SteelSection\<close> read four attributes of \<open>self\<close>: the area
  \<open>A\<close>, the plastic section moduli \<open>Zy\<close> and \<open>Zz\<close>, and the yield stress \<open>fy\<close> of
  the material. The record holds these four.
\<close>

record SteelSection =
  A :: real
  Zy :: real
  Zz :: real
  material :: Material

definition SteelSection_Phi :: "SteelSection \<Rightarrow> real \<Rightarrow> real \<Rightarrow> real \<Rightarrow> real" where
  "SteelSection_Phi self fx my mz =
     (let Py = fy (material self) * A self;
          Mpy = fy (material self) * Zy self;
          Mpz = fy (material self) * Zz self;
          p = fx / Py;
          m_y = my / Mpy;
          m_z = mz / Mpz
      in p ^ 2 + m_z ^ 2 + m_y ^ 4 + 3.5 * p ^ 2 * m_z ^ 2 + 3 * p ^ 6 * m_y ^ 2
           + 4.5 * m_z ^ 4 * m_y ^ 2)"

definition SteelSection_G :: "SteelSection \<Rightarrow> real \<Rightarrow> real \<Rightarrow> real \<Rightarrow> real list" where
  "SteelSection_G self fx my mz =
     (let Py = fy (material self) * A self;
          Mpy = fy (material self) * Zy self;
          Mpz = fy (material self) * Zz self;
          dPhi_dfx = 18 * fx ^ 5 * my ^ 2 / (Mpy ^ 2 * Py ^ 6) + 2 * fx / Py ^ 2
                       + 7.0 * fx * mz ^ 2 / (Mpz ^ 2 * Py ^ 2);
          dPhi_dmy = 6 * fx ^ 6 * my / (Mpy ^ 2 * Py ^ 6) + 2 * my / Mpy ^ 2
                       + 9.0 * my * mz ^ 4 / (Mpy ^ 2 * Mpz ^ 4);
          dPhi_dmz = 7.0 * fx ^ 2 * mz / (Mpz ^ 2 * Py ^ 2) + 2 * mz / Mpz ^ 2
                       + 18.0 * my ^ 2 * mz ^ 3 / (Mpy ^ 2 * Mpz ^ 4)
      in [dPhi_dfx, 0, 0, 0, dPhi_dmy, dPhi_dmz])"

text \<open>The gradient of the base class \<open>Section\<close>: central differences of the \<open>Phi\<close> the
  object dispatches to, with the step \<open>epsilon = 1e-6\<close>.\<close>

definition epsilon :: real where
  "epsilon = 1 / 10 ^ 6"

definition Section_G :: "(real \<Rightarrow> real \<Rightarrow> real \<Rightarrow> real) \<Rightarrow> real \<Rightarrow> real \<Rightarrow> real \<Rightarrow> real list" where
  "Section_G Phi fx my mz =
     (let dPhi_dfx = (Phi (fx + epsilon) my mz - Phi (fx - epsilon) my mz) / (2 * epsilon);
          dPhi_dmy = (Phi fx (my + epsilon) mz - Phi fx (my - epsilon) mz) / (2 * epsilon);
          dPhi_dmz = (Phi fx my (mz + epsilon) - Phi fx my (mz - epsilon)) / (2 * epsilon)
      in [dPhi_dfx, 0, 0, 0, dPhi_dmy, dPhi_dmz])"

section \<open>The rectangular wall panel\<close>

text \<open>A surface load is the tuple \<open>(y_bot, y_top, p_bot, p_top)\<close> that \<open>add_load\<close>
  stores.\<close>

type_synonym load = "real \<times> real \<times> real \<times> real"

record RectWall =
  width :: real
  height :: real
  thickness :: real
  mesh_size :: real
  E :: real
  nu :: real
  fem :: FEModel3D
  loads :: "load list"
  nodes :: "Node3D list"
  quads :: "Quad3D list"
  bot_support :: string
  top_support :: string
  left_support :: string
  right_support :: string
  analyzed :: bool

text \<open>The constructor, its defaults written out by the caller.\<close>

definition RectWall_init ::
  "real \<Rightarrow> real \<Rightarrow> real \<Rightarrow> real \<Rightarrow> real \<Rightarrow> real \<Rightarrow> string \<Rightarrow> string \<Rightarrow> string \<Rightarrow> string \<Rightarrow> RectWall" where
  "RectWall_init wd ht th e v ms bot_s top_s left_s right_s =
     \<lparr>width = wd, height = ht, thickness = th, mesh_size = ms, E = e, nu = v,
      fem = FEModel3D_init, loads = [], nodes = [], quads = [],
      bot_support = bot_s, top_support = top_s, left_support = left_s, right_support = right_s,
      analyzed = False\<rparr>"

definition add_load :: "real \<Rightarrow> real \<Rightarrow> real \<Rightarrow> real \<Rightarrow> RectWall \<Rightarrow> RectWall" where
  "add_load y_bot y_top p_bot p_top self =
     self\<lparr>loads := loads self @ [(y_bot, y_top, p_bot, p_top)], analyzed := False\<rparr>"


subsection \<open>Meshing\<close>

text \<open>
  The control points. \<open>list(set(y))\<close> yields the distinct elements of \<open>y\<close> in an order
  that the language leaves open; the parameter \<open>list_set\<close> stands for it, and
  \<open>set_iteration\<close> says what every such order satisfies. \<open>remdups\<close> is one of them.
\<close>

definition set_iteration :: "(real list \<Rightarrow> real list) \<Rightarrow> bool" where
  "set_iteration list_set = (\<forall>ys. set (list_set ys) = set ys \<and> distinct (list_set ys))"

definition control_points :: "(real list \<Rightarrow> real list) \<Rightarrow> real \<Rightarrow> load list \<Rightarrow> real list" where
  "control_points list_set ht lds =
     fold (\<lambda>load_item y. sort (list_set (y @ [fst load_item, fst (snd load_item)])))
       lds [0, ht]"

text \<open>One \<open>AddNode\<close> of the meshing loops, with the counter \<open>node_id\<close>.\<close>

definition add_node_step :: "real \<Rightarrow> real \<Rightarrow> FEModel3D \<times> int \<Rightarrow> FEModel3D \<times> int" where
  "add_node_step x y s =
     (case s of (model, node_id) \<Rightarrow> (AddNode (''N'' @ str node_id) x y 0 model, node_id + 1))"

text \<open>The bottom row: \<open>for i in range(num_cols + 1)\<close>.\<close>

definition bottom_row :: "int \<Rightarrow> real \<Rightarrow> FEModel3D \<times> int \<Rightarrow> FEModel3D \<times> int" where
  "bottom_row num_cols pl_width s =
     fold (\<lambda>i. add_node_step (of_int i * pl_width) 0) (py_range (num_cols + 1)) s"

text \<open>The nodes of a lift: \<open>for j in range(num_rows + 1): for i in range(num_cols + 1)\<close>,
  the row \<open>j = 0\<close> skipped.\<close>

definition lift_nodes ::
  "int \<Rightarrow> int \<Rightarrow> real \<Rightarrow> real \<Rightarrow> real \<Rightarrow> FEModel3D \<times> int \<Rightarrow> FEModel3D \<times> int" where
  "lift_nodes num_cols num_rows pl_width pl_height y_prev s =
     fold (\<lambda>j. fold (\<lambda>i s'. if j \<noteq> 0
                              then add_node_step (of_int i * pl_width) (of_int j * pl_height + y_prev) s'
                              else s')
                   (py_range (num_cols + 1)))
       (py_range (num_rows + 1)) s"

text \<open>One \<open>AddQuad\<close> of the meshing loops, with the counter \<open>pl_id\<close>. The loop body runs
  only for \<open>num_cols \<ge> 1\<close>, so the division cannot fail.\<close>

definition add_quad_step :: "RectWall \<Rightarrow> int \<Rightarrow> FEModel3D \<times> int \<Rightarrow> FEModel3D \<times> int" where
  "add_quad_step self num_cols s =
     (case s of (model, pl_id) \<Rightarrow>
        let ni = pl_id + max 0 (py_int (of_int (pl_id - 1) / of_int num_cols));
            nj = ni + 1;
            nm = nj + (num_cols + 1);
            nn = nm - 1
        in (AddQuad (''P'' @ str pl_id) (''N'' @ str ni) (''N'' @ str nj) (''N'' @ str nm)
              (''N'' @ str nn) (thickness self) (E self) (nu self) model,
            pl_id + 1))"

text \<open>The elements of a lift: \<open>for j in range(num_rows): for i in range(num_cols)\<close>.\<close>

definition lift_quads :: "RectWall \<Rightarrow> int \<Rightarrow> int \<Rightarrow> FEModel3D \<times> int \<Rightarrow> FEModel3D \<times> int" where
  "lift_quads self num_cols num_rows s =
     fold (\<lambda>j. fold (\<lambda>i. add_quad_step self num_cols) (py_range num_cols)) (py_range num_rows) s"

text \<open>The loop over the control points after the first. The state is the model and the
  two counters; \<open>y_prev\<close> is the control point below. \<open>num_rows\<close> is at least one and
  \<open>mesh_size\<close> is not zero here, so neither division can fail.\<close>

fun lifts ::
  "RectWall \<Rightarrow> int \<Rightarrow> real \<Rightarrow> real list \<Rightarrow> real \<Rightarrow> FEModel3D \<times> int \<times> int \<Rightarrow> FEModel3D \<times> int \<times> int" where
  "lifts self num_cols pl_width [] y_prev s = s"
| "lifts self num_cols pl_width (control_point # rest) y_prev (model, node_id, pl_id) =
     (let h = control_point - y_prev;
          num_rows = max 1 (py_round (h / mesh_size self));
          pl_height = h / of_int num_rows;
          (model1, node_id1) = lift_nodes num_cols num_rows pl_width pl_height y_prev (model, node_id);
          (model2, pl_id1) = lift_quads self num_cols num_rows (model1, pl_id)
      in lifts self num_cols pl_width rest control_point (model2, node_id1, pl_id1))"

text \<open>\<open>__descritize\<close>. The result is the wall after the call, or at the statement that
  raised, and the exception if one was raised. The two divisions at the top are the only
  statements that can raise before the first node is added.\<close>

definition descritize :: "(real list \<Rightarrow> real list) \<Rightarrow> RectWall \<Rightarrow> RectWall \<times> error option" where
  "descritize list_set self =
     (if mesh_size self = 0 then (self, Some ZeroDivisionError)
      else
        let num_cols = py_round (width self / mesh_size self) in
        if num_cols = 0 then (self, Some ZeroDivisionError)
        else
          let pl_width = width self / of_int num_cols;
              y = control_points list_set (height self) (loads self)
          in (case y of
                [] \<Rightarrow> (self, Some StopIteration)
              | y0 # iter_y \<Rightarrow>
                  let (model1, node_id) = bottom_row num_cols pl_width (fem self, 1);
                      (model2, node_id', pl_id) =
                         lifts self num_cols pl_width iter_y 0 (model1, node_id, 1)
                  in (self\<lparr>fem := model2\<rparr>, None)))"

subsection \<open>Supports\<close>

text \<open>The two assignments of \<open>__define_supports\<close>, and its chain of edge tests for one
  node.\<close>

definition set_fixed :: "Node3D \<Rightarrow> Node3D" where
  "set_fixed node =
     node\<lparr>SupportDX := True, SupportDY := True, SupportDZ := True,
          SupportRX := True, SupportRY := True\<rparr>"

definition set_pinned :: "Node3D \<Rightarrow> Node3D" where
  "set_pinned node = node\<lparr>SupportDX := True, SupportDY := True, SupportDZ := True\<rparr>"

definition edge_support :: "string \<Rightarrow> Node3D \<Rightarrow> Node3D" where
  "edge_support support node =
     (if support = ''Fixed'' then set_fixed node
      else if support = ''Pinned'' then set_pinned node
      else node)"

definition node_support :: "RectWall \<Rightarrow> Node3D \<Rightarrow> Node3D" where
  "node_support self node =
     (if isclose (X node) 0 then edge_support (left_support self) node
      else if isclose (X node) (width self) then edge_support (right_support self) node
      else if isclose (Y node) 0 then edge_support (bot_support self) node
      else if isclose (Y node) (height self) then edge_support (top_support self) node
      else node)"

definition define_supports :: "RectWall \<Rightarrow> RectWall" where
  "define_supports self =
     self\<lparr>fem := (fem self)\<lparr>Nodes := map (node_support self) (Nodes (fem self))\<rparr>\<rparr>"

subsection \<open>Loads and analysis\<close>

text \<open>The inner loop of \<open>analyze\<close> over the loads, for one element with centroid
  \<open>avgY\<close>: the running \<open>pressure\<close> and the element's pressure list. The division raises
  for a load of zero extent that contains the centroid.\<close>

fun load_loop ::
  "load list \<Rightarrow> real \<Rightarrow> real \<Rightarrow> (real \<times> string) list \<Rightarrow> (real \<times> string) list \<times> error option" where
  "load_loop [] avgY pressure ps = (ps, None)"
| "load_loop ((y1, y2, p1, p2) # rest) avgY pressure ps =
     (if avgY \<le> y2 \<and> avgY \<ge> y1 then
        if y2 - y1 = 0 then (ps, Some ZeroDivisionError)
        else
          let pressure' = pressure + ((p2 - p1) / (y2 - y1) * (avgY - y1) + p1)
          in load_loop rest avgY pressure' (ps @ [(pressure', ''Case 1'')])
      else load_loop rest avgY pressure ps)"

text \<open>The body of the loop over the elements. A corner key that the model does not
  hold gives no node, whose \<open>Y\<close> cannot be read.\<close>

definition quad_load :: "RectWall \<Rightarrow> Quad3D \<Rightarrow> Quad3D \<times> error option" where
  "quad_load self quad =
     (case (GetNode (fem self) (iNode quad), GetNode (fem self) (jNode quad),
            GetNode (fem self) (mNode quad), GetNode (fem self) (nNode quad)) of
        (Some i_node, Some j_node, Some m_node, Some n_node) \<Rightarrow>
          let avgY = (Y i_node + Y j_node + Y m_node + Y n_node) / 4;
              (ps, err) = load_loop (loads self) avgY 0 (pressures quad)
          in (quad\<lparr>pressures := ps\<rparr>, err)
      | _ \<Rightarrow> (quad, Some AttributeError))"

text \<open>The loop over the elements: it stops at the first exception, the elements after
  it untouched.\<close>

fun quad_loads :: "RectWall \<Rightarrow> Quad3D list \<Rightarrow> Quad3D list \<times> error option" where
  "quad_loads self [] = ([], None)"
| "quad_loads self (quad # rest) =
     (case quad_load self quad of
        (quad', Some e) \<Rightarrow> (quad' # rest, Some e)
      | (quad', None) \<Rightarrow>
          (case quad_loads self rest of (rest', err) \<Rightarrow> (quad' # rest', err)))"

text \<open>\<open>analyze\<close>, up to and including \<open>self.fem.Analyze()\<close>, a service of the absent
  model class and a parameter here. The displacement it prints afterwards is not part of
  the state.\<close>

definition analyze ::
  "(real list \<Rightarrow> real list) \<Rightarrow> (FEModel3D \<Rightarrow> FEModel3D) \<Rightarrow> RectWall \<Rightarrow> RectWall \<times> error option" where
  "analyze list_set Analyze self =
     (case descritize list_set self of
        (self1, Some e) \<Rightarrow> (self1, Some e)
      | (self1, None) \<Rightarrow>
          let self2 = define_supports self1 in
          (case quad_loads self2 (Quads (fem self2)) of
             (qs, Some e) \<Rightarrow> (self2\<lparr>fem := (fem self2)\<lparr>Quads := qs\<rparr>\<rparr>, Some e)
           | (qs, None) \<Rightarrow>
               (self2\<lparr>fem := Analyze ((fem self2)\<lparr>Quads := qs\<rparr>)\<rparr>, None)))"

subsection \<open>The grid that meshing builds\<close>

text \<open>
  The functions of this subsection are not in the source. They describe, by position
  in a grid, the nodes and elements that \<open>__descritize\<close> creates, so that theorems can
  speak about "row \<open>r\<close>, column \<open>c\<close>". The Y coordinates of the rows of one lift follow
  the formulas of the loop: \<open>h\<close>, \<open>num_rows\<close>, \<open>pl_height\<close> and \<open>j*pl_height + y_prev\<close> for
  \<open>j = 1 .. num_rows\<close>.
\<close>

definition lift_rows :: "real \<Rightarrow> real \<Rightarrow> real \<Rightarrow> real list" where
  "lift_rows ms y_prev control_point =
     (let h = control_point - y_prev;
          num_rows = max 1 (py_round (h / ms));
          pl_height = h / of_int num_rows
      in map (\<lambda>j. of_int (int j) * pl_height + y_prev) [1..<Suc (nat num_rows)])"

fun row_ys :: "real \<Rightarrow> real list \<Rightarrow> real \<Rightarrow> real list" where
  "row_ys ms [] y_prev = []"
| "row_ys ms (control_point # rest) y_prev =
     lift_rows ms y_prev control_point @ row_ys ms rest control_point"

text \<open>The Y coordinates of all rows of nodes, bottom row first.\<close>

definition mesh_rows :: "(real list \<Rightarrow> real list) \<Rightarrow> RectWall \<Rightarrow> real list" where
  "mesh_rows list_set self =
     0 # row_ys (mesh_size self) (tl (control_points list_set (height self) (loads self))) 0"

text \<open>The node number \<open>k\<close> (from 0) of a grid with \<open>n\<close> nodes per row, and the list of
  all nodes of the grid.\<close>

definition grid_node :: "nat \<Rightarrow> real \<Rightarrow> real list \<Rightarrow> nat \<Rightarrow> Node3D" where
  "grid_node n pl_width ys k =
     \<lparr>Name = ''N'' @ str (int k + 1), X = of_int (int (k mod n)) * pl_width, Y = ys ! (k div n),
      Z = 0, SupportDX = False, SupportDY = False, SupportDZ = False,
      SupportRX = False, SupportRY = False, SupportRZ = False\<rparr>"

definition grid_nodes :: "nat \<Rightarrow> real \<Rightarrow> real list \<Rightarrow> Node3D list" where
  "grid_nodes n pl_width ys = map (grid_node n pl_width ys) [0..<length ys * n]"

text \<open>The element that \<open>add_quad_step\<close> creates when the counter is \<open>pl_id\<close>.\<close>

definition new_quad :: "RectWall \<Rightarrow> int \<Rightarrow> int \<Rightarrow> Quad3D" where
  "new_quad self num_cols pl_id =
     (let ni = pl_id + max 0 (py_int (of_int (pl_id - 1) / of_int num_cols));
          nj = ni + 1;
          nm = nj + (num_cols + 1);
          nn = nm - 1
      in \<lparr>qName = ''P'' @ str pl_id, iNode = ''N'' @ str ni, jNode = ''N'' @ str nj,
          mNode = ''N'' @ str nm, nNode = ''N'' @ str nn,
          q_t = thickness self, q_E = E self, q_nu = nu self, pressures = []\<rparr>)"

text \<open>Names for two locals of \<open>__descritize\<close>, for the model it leaves behind, and for
  the position of the node that a corner key refers to.\<close>

definition num_cols :: "RectWall \<Rightarrow> int" where
  "num_cols self = py_round (width self / mesh_size self)"

definition pl_width :: "RectWall \<Rightarrow> real" where
  "pl_width self = width self / of_int (num_cols self)"

definition meshed :: "(real list \<Rightarrow> real list) \<Rightarrow> RectWall \<Rightarrow> FEModel3D" where
  "meshed list_set self = fem (fst (descritize list_set self))"


text \<open>A node as \<open>AddNode\<close> creates it, with the key \<open>N<k>\<close>.\<close>

definition mk_node :: "int \<Rightarrow> real \<Rightarrow> real \<Rightarrow> Node3D" where
  "mk_node k x y = \<lparr>Name = ''N'' @ str k, X = x, Y = y, Z = 0, SupportDX = False, SupportDY = False, SupportDZ = False,
      SupportRX = False, SupportRY = False, SupportRZ = False\<rparr>"

subsection \<open>Concrete walls\<close>



definition wall_narrow :: RectWall where
  "wall_narrow = RectWall_init (2 / 5) 1 1 1 1 1 ''Pinned'' ''Pinned'' ''Free'' ''Free''"

definition wall_two_bands :: RectWall where
  "wall_two_bands =
     add_load 0 1 2 2 (add_load 0 1 1 1
       (RectWall_init 1 1 1 1 1 1 ''Pinned'' ''Fixed'' ''Free'' ''Pinned''))"



text \<open>A steel section with unit area, unit plastic moduli and unit yield stress.\<close>

definition unit_section :: SteelSection where
  "unit_section = \<lparr>A = 1, Zy = 1, Zz = 1, material = \<lparr>fy = 1\<rparr>\<rparr>"

text \<open>The node at the top right corner of \<open>wall_two_bands\<close>, as meshing creates it.\<close>

definition corner_node :: Node3D where
  "corner_node = mk_node 4 1 1"

section \<open>Theorems\<close>

subsection \<open>Decimal keys are injective\<close>


lemma digit_char_not_minus: "d < 10 \<Longrightarrow> digit_char d \<noteq> CHR ''-''"
proof -
  assume a: "d < 10"
  have A: "d \<in> {0,1,2,3,4,5,6,7,8,9}" using a by auto
  then show ?thesis unfolding digit_char_def by auto
qed




lemma fold_const: "fold (\<lambda>i. f) xs s = (f ^^ length xs) s"
  by (induction xs arbitrary: s) (simp_all add: funpow_swap1)

subsection \<open>The meshing loops, as lists\<close>

lemma add_node_step_eq:
  "add_node_step x y (model, k) = (model\<lparr>Nodes := Nodes model @ [mk_node k x y]\<rparr>, k + 1)"
  by (simp add: add_node_step_def AddNode_def mk_node_def)

lemma fold_add_nodes:
  "fold (\<lambda>i. add_node_step (f i) y) (map int [0..<n]) (model, k) =
     (model\<lparr>Nodes := Nodes model @ map (\<lambda>i. mk_node (k + int i) (f (int i)) y) [0..<n]\<rparr>, k + int n)"
proof (induction n)
  case 0
  show ?case by simp
next
  case (Suc n)
  show ?case by (simp add: Suc add_node_step_eq)
qed

lemma grid_node_mk: "grid_node n pw ys k = mk_node (int k + 1) (of_int (int (k mod n)) * pw) (ys ! (k div n))"
  by (simp add: grid_node_def mk_node_def)

lemma grid_nodes_snoc:
  "grid_nodes n pw (ys @ [y]) =
     grid_nodes n pw ys @ map (\<lambda>i. mk_node (int (length ys * n) + 1 + int i) (of_int (int i) * pw) y) [0..<n]"
proof -
  let ?l = "length ys"
  have split: "[0..<(?l + 1) * n] = [0..<?l * n] @ map (\<lambda>i. i + ?l * n) [0..<n]"
  proof -
    have "[0..<(?l + 1) * n] = [0..<?l * n + n]" by (simp add: add.commute)
    also have "\<dots> = [0..<?l * n] @ [?l * n..<?l * n + n]"
      using upt_add_eq_append[of 0 "?l * n" n] by simp
    also have "[?l * n..<?l * n + n] = map (\<lambda>i. i + ?l * n) [0..<n]"
      using map_add_upt[of "?l * n" n] by (simp add: add.commute)
    finally show ?thesis .
  qed
  have first: "map (grid_node n pw (ys @ [y])) [0..<?l * n] = map (grid_node n pw ys) [0..<?l * n]"
  proof (rule map_cong[OF refl])
    fix k assume "k \<in> set [0..<?l * n]"
    then have k: "k < ?l * n" by simp
    then have "0 < n" by (cases n) auto
    with k have "k div n < ?l" by (simp add: less_mult_imp_div_less)
    then show "grid_node n pw (ys @ [y]) k = grid_node n pw ys k"
      by (simp add: grid_node_def nth_append)
  qed
  have second: "map (grid_node n pw (ys @ [y])) (map (\<lambda>i. i + ?l * n) [0..<n])
      = map (\<lambda>i. mk_node (int (?l * n) + 1 + int i) (of_int (int i) * pw) y) [0..<n]"
  proof -
    have "\<And>i. i < n \<Longrightarrow> grid_node n pw (ys @ [y]) (i + ?l * n) = mk_node (int (?l * n) + 1 + int i) (of_int (int i) * pw) y"
      by (simp add: grid_node_mk nth_append algebra_simps)
    then show ?thesis by simp
  qed
  show ?thesis
    unfolding grid_nodes_def using split first second by simp
qed

lemma add_row:
  assumes "Nodes model = pre @ grid_nodes n pw ys"
  shows "fold (\<lambda>i. add_node_step (of_int i * pw) y) (map int [0..<n]) (model, int (length ys * n) + 1)
     = (model\<lparr>Nodes := pre @ grid_nodes n pw (ys @ [y])\<rparr>, int (length (ys @ [y]) * n) + 1)"
  unfolding fold_add_nodes grid_nodes_snoc using assms
  by (simp add: algebra_simps)

lemma fold_skip: "fold (\<lambda>i s'. s') xs s = s"
  by (induction xs) simp_all

lemma lift_nodes_rows:
  assumes "Nodes model = pre @ grid_nodes n pw ys"
  shows "fold (\<lambda>j. fold (\<lambda>i s'. if j \<noteq> 0
                              then add_node_step (of_int i * pw) (of_int j * ph + yp) s'
                              else s')
                   (map int [0..<n])) (map int [0..<r]) (model, int (length ys * n) + 1)
    = (model\<lparr>Nodes := pre @ grid_nodes n pw (ys @ map (\<lambda>j. of_int (int j) * ph + yp) [1..<r])\<rparr>,
       int (length (ys @ map (\<lambda>j. of_int (int j) * ph + yp) [1..<r]) * n) + 1)"
proof (induction r)
  case 0
  have "model\<lparr>Nodes := pre @ grid_nodes n pw ys\<rparr> = model" using assms by simp
  then show ?case by simp
next
  case (Suc r)
  show ?case
  proof (cases "r = 0")
    case True
    have "model\<lparr>Nodes := pre @ grid_nodes n pw ys\<rparr> = model" using assms by simp
    then show ?thesis using True by (simp add: fold_skip)
  next
    case False
    let ?ys = "ys @ map (\<lambda>j. of_int (int j) * ph + yp) [1..<r]"
    let ?m = "model\<lparr>Nodes := pre @ grid_nodes n pw ?ys\<rparr>"
    have N: "Nodes ?m = pre @ grid_nodes n pw ?ys" by simp
    have up: "[1..<Suc r] = [1..<r] @ [r]" using False by simp
    have inner: "(\<lambda>i s'. if int r \<noteq> 0 then add_node_step (of_int i * pw) (of_int (int r) * ph + yp) s' else s')
        = (\<lambda>i. add_node_step (of_int i * pw) (of_int (int r) * ph + yp))"
      using False by (intro ext) simp
    have step: "fold (\<lambda>j. fold (\<lambda>i s'. if j \<noteq> 0
                              then add_node_step (of_int i * pw) (of_int j * ph + yp) s'
                              else s')
                   (map int [0..<n])) (map int [0..<Suc r]) (model, int (length ys * n) + 1)
       = fold (\<lambda>i. add_node_step (of_int i * pw) (of_int (int r) * ph + yp)) (map int [0..<n])
           (?m, int (length ?ys * n) + 1)"
      unfolding upt_Suc_append[OF le0] map_append fold_append comp_def Suc.IH
      by (simp only: list.map fold_simps inner)
    have fin: "model\<lparr>Nodes := pre @ grid_nodes n pw (?ys @ [of_int (int r) * ph + yp])\<rparr>
        = ?m\<lparr>Nodes := pre @ grid_nodes n pw (?ys @ [of_int (int r) * ph + yp])\<rparr>" by simp
    show ?thesis
      unfolding step add_row[OF N] up map_append by simp
  qed
qed

lemma fold_const_fun: "fold (\<lambda>i. f) xs = f ^^ length xs"
  by (rule ext) (simp add: fold_const)

lemma add_quad_step_eq:
  "add_quad_step self C (model, k) = (model\<lparr>Quads := Quads model @ [new_quad self C k]\<rparr>, k + 1)"
  by (simp add: add_quad_step_def AddQuad_def new_quad_def Let_def)

lemma funpow_add_quad:
  "(add_quad_step self C ^^ m) (model, k) =
     (model\<lparr>Quads := Quads model @ map (\<lambda>p. new_quad self C (k + int p)) [0..<m]\<rparr>, k + int m)"
proof (induction m)
  case 0
  show ?case by simp
next
  case (Suc m)
  show ?case by (simp add: Suc add_quad_step_eq)
qed

lemma lift_quads_eq:
  "lift_quads self C R (model, k) =
     (model\<lparr>Quads := Quads model @ map (\<lambda>p. new_quad self C (k + int p)) [0..<nat R * nat C]\<rparr>,
      k + int (nat R * nat C))"
proof -
  have "lift_quads self C R = add_quad_step self C ^^ (nat R * nat C)"
    unfolding lift_quads_def py_range_def fold_const_fun
    by (simp add: funpow_mult mult.commute)
  then show ?thesis by (simp only: funpow_add_quad)
qed

lemma lift_nodes_eq:
  assumes "Nodes model = pre @ grid_nodes (nat (C + 1)) pw ys" and "1 \<le> R"
  shows "lift_nodes C R pw ph yp (model, int (length ys * nat (C + 1)) + 1) =
     (model\<lparr>Nodes := pre @ grid_nodes (nat (C + 1)) pw
                 (ys @ map (\<lambda>j. of_int (int j) * ph + yp) [1..<Suc (nat R)])\<rparr>,
      int (length (ys @ map (\<lambda>j. of_int (int j) * ph + yp) [1..<Suc (nat R)]) * nat (C + 1)) + 1)"
proof -
  have r: "nat (R + 1) = Suc (nat R)" using assms(2) by simp
  show ?thesis
    unfolding lift_nodes_def py_range_def r
    by (rule lift_nodes_rows[OF assms(1)])
qed

lemma length_lift_rows: "length (lift_rows ms yp cp) = nat (max 1 (py_round ((cp - yp) / ms)))"
  by (simp add: lift_rows_def Let_def)

lemma map_upt_add_split:
  "map f [0..<a + b] = map f [0..<a] @ map (\<lambda>p. f (a + p)) [0..<b]"
proof -
  have "[0..<a + b] = [0..<a] @ map (\<lambda>p. p + a) [0..<b]"
    using upt_add_eq_append[of 0 a b] map_add_upt[of a b] by (simp add: add.commute)
  then show ?thesis by (simp add: comp_def add.commute)
qed

lemma lifts_eq:
  assumes "Nodes model = pre @ grid_nodes (nat (C + 1)) pw ys"
  shows "lifts self C pw cps yp (model, int (length ys * nat (C + 1)) + 1, k) =
     (model\<lparr>Nodes := pre @ grid_nodes (nat (C + 1)) pw (ys @ row_ys (mesh_size self) cps yp),
            Quads := Quads model @ map (\<lambda>p. new_quad self C (k + int p))
                        [0..<length (row_ys (mesh_size self) cps yp) * nat C]\<rparr>,
      int (length (ys @ row_ys (mesh_size self) cps yp) * nat (C + 1)) + 1,
      k + int (length (row_ys (mesh_size self) cps yp) * nat C))"
  using assms
proof (induction cps arbitrary: model ys yp k)
  case Nil
  then show ?case by simp
next
  case (Cons cp rest)
  let ?ms = "mesh_size self"
  define R where "R = max 1 (py_round ((cp - yp) / ?ms))"
  define ph where "ph = (cp - yp) / of_int R"
  have R1: "1 \<le> R" by (simp add: R_def)
  have lr: "lift_rows ?ms yp cp = map (\<lambda>j. of_int (int j) * ph + yp) [1..<Suc (nat R)]"
    by (simp add: lift_rows_def Let_def R_def ph_def)
  have len: "length (lift_rows ?ms yp cp) = nat R" by (simp add: lr)
  let ?ys1 = "ys @ lift_rows ?ms yp cp"
  let ?m1 = "model\<lparr>Nodes := pre @ grid_nodes (nat (C + 1)) pw ?ys1\<rparr>"
  let ?m2 = "?m1\<lparr>Quads := Quads ?m1 @ map (\<lambda>p. new_quad self C (k + int p)) [0..<nat R * nat C]\<rparr>"
  have n1: "lift_nodes C R pw ph yp (model, int (length ys * nat (C + 1)) + 1)
       = (?m1, int (length ?ys1 * nat (C + 1)) + 1)"
    using lift_nodes_eq[OF Cons.prems R1, of ph yp] by (simp only: lr)
  have q1: "lift_quads self C R (?m1, k) = (?m2, k + int (nat R * nat C))"
    by (rule lift_quads_eq)
  have N2: "Nodes ?m2 = pre @ grid_nodes (nat (C + 1)) pw ?ys1" by simp
  have unfold: "lifts self C pw (cp # rest) yp (model, int (length ys * nat (C + 1)) + 1, k)
      = lifts self C pw rest cp (?m2, int (length ?ys1 * nat (C + 1)) + 1, k + int (nat R * nat C))"
    using n1 q1 by (simp add: Let_def R_def[symmetric] ph_def[symmetric])
  have rows: "row_ys ?ms (cp # rest) yp = lift_rows ?ms yp cp @ row_ys ?ms rest cp" by simp
  let ?L = "length (row_ys ?ms rest cp)"
  have quads: "Quads ?m2 @ map (\<lambda>p. new_quad self C (k + int (nat R * nat C) + int p)) [0..<?L * nat C]
      = Quads model @ map (\<lambda>p. new_quad self C (k + int p)) [0..<length (row_ys ?ms (cp # rest) yp) * nat C]"
  proof -
    have "length (row_ys ?ms (cp # rest) yp) * nat C = nat R * nat C + ?L * nat C"
      by (simp add: len add_mult_distrib)
    then show ?thesis
      by (simp add: map_upt_add_split add.assoc del: row_ys.simps)
  qed
  show ?case
    unfolding unfold Cons.IH[OF N2] quads
    by (simp add: len add_mult_distrib algebra_simps)
qed


lemma set_iteration_remdups: "set_iteration remdups"
  by (simp add: set_iteration_def)

lemma sort_list_set_canonical:
  assumes "set_iteration ls"
  shows "sort (ls ys) = sort (remdups ys)"
proof (rule sorted_distinct_set_unique)
  show "sorted (sort (ls ys))" by simp
  show "sorted (sort (remdups ys))" by simp
  show "distinct (sort (ls ys))" using assms by (simp add: set_iteration_def)
  show "distinct (sort (remdups ys))" by simp
  show "set (sort (ls ys)) = set (sort (remdups ys))" using assms by (simp add: set_iteration_def)
qed

lemma control_points_canonical:
  assumes "set_iteration ls"
  shows "control_points ls ht lds = control_points remdups ht lds"
  unfolding control_points_def by (simp add: sort_list_set_canonical[OF assms])

lemma fold_control_set:
  "set (fold (\<lambda>load_item y. sort (remdups (y @ [fst load_item, fst (snd load_item)]))) lds y0)
     = set y0 \<union> (\<Union>l\<in>set lds. {fst l, fst (snd l)})"
  by (induction lds arbitrary: y0) auto

lemma set_control_points:
  assumes "set_iteration ls"
  shows "set (control_points ls ht lds) = {0, ht} \<union> (\<Union>l\<in>set lds. {fst l, fst (snd l)})"
  unfolding control_points_canonical[OF assms]
  unfolding control_points_def fold_control_set by auto

lemma control_points_nonempty:
  assumes "set_iteration ls"
  shows "control_points ls ht lds \<noteq> []"
proof
  assume "control_points ls ht lds = []"
  then have "set (control_points ls ht lds) = {}" by simp
  then show False unfolding set_control_points[OF assms] by simp
qed



lemma bottom_row_eq:
  "bottom_row C pw (model, 1) =
     (model\<lparr>Nodes := Nodes model @ grid_nodes (nat (C + 1)) pw [0]\<rparr>,
      int (length [0::real] * nat (C + 1)) + 1)"
proof -
  have e: "Nodes model = Nodes model @ grid_nodes (nat (C + 1)) pw []"
    by (simp add: grid_nodes_def)
  show ?thesis
    unfolding bottom_row_def py_range_def
    using add_row[OF e, of 0] by simp
qed

lemma descritize_eq:
  assumes "set_iteration ls" and "mesh_size self \<noteq> 0"
    and "py_round (width self / mesh_size self) \<noteq> 0"
  shows "descritize ls self =
     (self\<lparr>fem := (fem self)
        \<lparr>Nodes := Nodes (fem self) @
            grid_nodes (nat (py_round (width self / mesh_size self) + 1))
              (width self / of_int (py_round (width self / mesh_size self))) (mesh_rows ls self),
         Quads := Quads (fem self) @
            map (\<lambda>p. new_quad self (py_round (width self / mesh_size self)) (1 + int p))
              [0..<(length (mesh_rows ls self) - 1) * nat (py_round (width self / mesh_size self))]\<rparr>\<rparr>,
      None)"
proof -
  define C where "C = py_round (width self / mesh_size self)"
  define pw where "pw = width self / of_int C"
  obtain y0 iter_y where y: "control_points ls (height self) (loads self) = y0 # iter_y"
    using control_points_nonempty[OF assms(1)] by (cases "control_points ls (height self) (loads self)") auto
  let ?m1 = "(fem self)\<lparr>Nodes := Nodes (fem self) @ grid_nodes (nat (C + 1)) pw [0]\<rparr>"
  have N1: "Nodes ?m1 = Nodes (fem self) @ grid_nodes (nat (C + 1)) pw [0]" by simp
  have rows: "mesh_rows ls self = [0] @ row_ys (mesh_size self) iter_y 0"
    by (simp add: mesh_rows_def y)
  define k0 where "k0 = int (length [0::real] * nat (C + 1)) + 1"
  define k1 where "k1 = int (length ([0] @ row_ys (mesh_size self) iter_y 0) * nat (C + 1)) + 1"
  define k2 where "k2 = 1 + int (length (row_ys (mesh_size self) iter_y 0) * nat C)"
  let ?m2 = "?m1\<lparr>Nodes := Nodes (fem self) @ grid_nodes (nat (C + 1)) pw ([0] @ row_ys (mesh_size self) iter_y 0),
            Quads := Quads ?m1 @ map (\<lambda>p. new_quad self C (1 + int p))
                        [0..<length (row_ys (mesh_size self) iter_y 0) * nat C]\<rparr>"
  have B: "bottom_row C pw (fem self, 1) = (?m1, k0)"
    unfolding k0_def by (rule bottom_row_eq)
  have L: "lifts self C pw iter_y 0 (?m1, k0, 1) = (?m2, k1, k2)"
    unfolding k0_def k1_def k2_def by (rule lifts_eq[OF N1])
  have "descritize ls self = (self\<lparr>fem := ?m2\<rparr>, None)"
    unfolding descritize_def Let_def C_def[symmetric] pw_def[symmetric] y
    using assms(2,3) by (simp add: C_def[symmetric] B L)
  then show ?thesis
    unfolding C_def[symmetric] pw_def[symmetric] rows by simp
qed



lemma set_iteration_rev_remdups: "set_iteration (\<lambda>ys. rev (remdups ys))"
  by (simp add: set_iteration_def)


subsection \<open>The dirty flag is not read\<close>









subsection \<open>Loads on one element, the yield surface of the unit section\<close>

lemma load_loop_two_bands:
  assumes "ya1 \<le> avgY" "avgY \<le> ya2" "ya1 \<noteq> ya2" "yb1 \<le> avgY" "avgY \<le> yb2" "yb1 \<noteq> yb2"
  shows "load_loop [(ya1, ya2, pa1, pa2), (yb1, yb2, pb1, pb2)] avgY 0 [] =
     ([((pa2 - pa1) / (ya2 - ya1) * (avgY - ya1) + pa1, ''Case 1''),
       ((pa2 - pa1) / (ya2 - ya1) * (avgY - ya1) + pa1
          + ((pb2 - pb1) / (yb2 - yb1) * (avgY - yb1) + pb1), ''Case 1'')], None)"
  using assms by (simp add: Let_def)

lemma unit_Phi: "SteelSection_Phi unit_section fx my mz
    = fx ^ 2 + mz ^ 2 + my ^ 4 + 3.5 * fx ^ 2 * mz ^ 2 + 3 * fx ^ 6 * my ^ 2 + 4.5 * mz ^ 4 * my ^ 2"
  by (simp add: SteelSection_Phi_def unit_section_def)

lemma unit_Phi_dmy:
  "((\<lambda>my. SteelSection_Phi unit_section 0 my 0) has_real_derivative 4) (at 1)"
  unfolding unit_Phi by (auto intro!: derivative_eq_intros)


subsection \<open>Looking a grid node up by its key\<close>





lemma meshed_eq:
  assumes "set_iteration ls" and "mesh_size self \<noteq> 0" and "num_cols self \<noteq> 0"
    and "Nodes (fem self) = []" and "Quads (fem self) = []"
  shows "Nodes (meshed ls self) = grid_nodes (nat (num_cols self + 1)) (pl_width self) (mesh_rows ls self)"
    and "Quads (meshed ls self) = map (\<lambda>p. new_quad self (num_cols self) (1 + int p))
              [0..<(length (mesh_rows ls self) - 1) * nat (num_cols self)]"
proof -
  have c: "py_round (width self / mesh_size self) \<noteq> 0" using assms(3) by (simp add: num_cols_def)
  show "Nodes (meshed ls self) = grid_nodes (nat (num_cols self + 1)) (pl_width self) (mesh_rows ls self)"
    unfolding meshed_def descritize_eq[OF assms(1,2) c]
    using assms(4) by (simp add: num_cols_def pl_width_def)
  show "Quads (meshed ls self) = map (\<lambda>p. new_quad self (num_cols self) (1 + int p))
              [0..<(length (mesh_rows ls self) - 1) * nat (num_cols self)]"
    unfolding meshed_def descritize_eq[OF assms(1,2) c]
    using assms(5) by (simp add: num_cols_def)
qed




subsection \<open>Rows of the mesh and band boundaries\<close>







lemma load_loop_one_band:
  assumes "y1 \<le> avgY" "avgY \<le> y2" "y1 \<noteq> y2"
  shows "load_loop [(y1, y2, p1, p2)] avgY 0 [] =
     ([((p2 - p1) / (y2 - y1) * (avgY - y1) + p1, ''Case 1'')], None)"
  using assms by (simp add: Let_def)

lemma load_loop_no_band:
  assumes "avgY < y1 \<or> y2 < avgY"
  shows "load_loop [(y1, y2, p1, p2)] avgY 0 [] = ([], None)"
  using assms by auto

lemma mesh_counts_no_loads:
  assumes "set_iteration ls" and "mesh_size self \<noteq> 0" and "num_cols self \<noteq> 0"
    and "Nodes (fem self) = []" and "Quads (fem self) = []" and "loads self = []"
  shows "length (Nodes (meshed ls self)) =
           nat (num_cols self + 1) * (nat (max 1 (py_round (height self / mesh_size self))) + 1)"
    and "length (Quads (meshed ls self)) =
           nat (num_cols self) * nat (max 1 (py_round (height self / mesh_size self)))"
proof -
  have rows: "length (mesh_rows ls self) = nat (max 1 (py_round (height self / mesh_size self))) + 1"
    by (simp add: mesh_rows_def control_points_def assms(6) length_lift_rows)
  show "length (Nodes (meshed ls self)) =
           nat (num_cols self + 1) * (nat (max 1 (py_round (height self / mesh_size self))) + 1)"
    unfolding meshed_eq(1)[OF assms(1-5)] grid_nodes_def
    by (simp only: length_map length_upt rows diff_zero mult.commute)
  show "length (Quads (meshed ls self)) =
           nat (num_cols self) * nat (max 1 (py_round (height self / mesh_size self)))"
    unfolding meshed_eq(2)[OF assms(1-5)]
    by (simp only: length_map length_upt rows diff_zero add_diff_cancel_right' mult.commute)
qed

lemma SteelSection_Phi_unfold:
  "SteelSection_Phi self fx my mz =
     (fx / (fy (material self) * A self)) ^ 2 + (mz / (fy (material self) * Zz self)) ^ 2
     + (my / (fy (material self) * Zy self)) ^ 4
     + 3.5 * (fx / (fy (material self) * A self)) ^ 2 * (mz / (fy (material self) * Zz self)) ^ 2
     + 3 * (fx / (fy (material self) * A self)) ^ 6 * (my / (fy (material self) * Zy self)) ^ 2
     + 4.5 * (mz / (fy (material self) * Zz self)) ^ 4 * (my / (fy (material self) * Zy self)) ^ 2"
  by (simp add: SteelSection_Phi_def Let_def)

lemma power_quot_step: "(x::real) ^ n / y ^ n / y = x ^ n / y ^ Suc n"
  by simp

lemma SteelSection_G_fx:
  assumes "fy (material self) * A self \<noteq> 0"
  shows "((\<lambda>fx. SteelSection_Phi self fx my mz) has_real_derivative (SteelSection_G self fx my mz ! 0))
           (at fx)"
proof -
  define Py where "Py = fy (material self) * A self"
  define Mpy where "Mpy = fy (material self) * Zy self"
  define Mpz where "Mpz = fy (material self) * Zz self"
  have Py0: "Py \<noteq> 0" using assms by (simp add: Py_def)
  have D: "((\<lambda>fx. (fx / Py) ^ 2 + (mz / Mpz) ^ 2 + (my / Mpy) ^ 4 + 3.5 * (fx / Py) ^ 2 * (mz / Mpz) ^ 2
            + 3 * (fx / Py) ^ 6 * (my / Mpy) ^ 2 + 4.5 * (mz / Mpz) ^ 4 * (my / Mpy) ^ 2)
          has_real_derivative
          (2 * (fx / Py) / Py + 3.5 * (2 * (fx / Py) / Py) * (mz / Mpz) ^ 2
            + 3 * (6 * (fx / Py) ^ 5 / Py) * (my / Mpy) ^ 2)) (at fx)"
    by (auto intro!: derivative_eq_intros simp: Py0)
  have t1: "2 * (fx / Py) / Py = 2 * fx / Py ^ 2" by (simp add: power2_eq_square)
  have t2: "3.5 * (2 * fx / Py ^ 2) * (mz / Mpz) ^ 2 = 7.0 * fx * mz ^ 2 / (Mpz ^ 2 * Py ^ 2)"
    by (simp add: power_divide power2_eq_square mult_ac)
  have t3: "3 * (6 * (fx / Py) ^ 5 / Py) * (my / Mpy) ^ 2 = 18 * fx ^ 5 * my ^ 2 / (Mpy ^ 2 * Py ^ 6)"
  proof -
    have "Py ^ 6 = Py ^ 5 * Py" using power_Suc2[of Py 5] by simp
    then show ?thesis by (simp add: power_divide mult_ac)
  qed
  have G0: "SteelSection_G self fx my mz ! 0 =
      18 * fx ^ 5 * my ^ 2 / (Mpy ^ 2 * Py ^ 6) + 2 * fx / Py ^ 2 + 7.0 * fx * mz ^ 2 / (Mpz ^ 2 * Py ^ 2)"
    by (simp add: SteelSection_G_def Let_def Py_def Mpy_def Mpz_def)
  have eq: "2 * (fx / Py) / Py + 3.5 * (2 * (fx / Py) / Py) * (mz / Mpz) ^ 2
            + 3 * (6 * (fx / Py) ^ 5 / Py) * (my / Mpy) ^ 2 = SteelSection_G self fx my mz ! 0"
    unfolding G0 t1 t2 t3 by simp
  show ?thesis
    unfolding SteelSection_Phi_unfold Py_def[symmetric] Mpy_def[symmetric] Mpz_def[symmetric]
    using D unfolding eq .
qed

lemma SteelSection_G_mz:
  assumes "fy (material self) * Zz self \<noteq> 0"
  shows "((\<lambda>mz. SteelSection_Phi self fx my mz) has_real_derivative (SteelSection_G self fx my mz ! 5))
           (at mz)"
proof -
  define Py where "Py = fy (material self) * A self"
  define Mpy where "Mpy = fy (material self) * Zy self"
  define Mpz where "Mpz = fy (material self) * Zz self"
  have Mpz0: "Mpz \<noteq> 0" using assms by (simp add: Mpz_def)
  have D: "((\<lambda>mz. (fx / Py) ^ 2 + (mz / Mpz) ^ 2 + (my / Mpy) ^ 4 + 3.5 * (fx / Py) ^ 2 * (mz / Mpz) ^ 2
            + 3 * (fx / Py) ^ 6 * (my / Mpy) ^ 2 + 4.5 * (mz / Mpz) ^ 4 * (my / Mpy) ^ 2)
          has_real_derivative
          (2 * (mz / Mpz) / Mpz + 3.5 * (fx / Py) ^ 2 * (2 * (mz / Mpz) / Mpz)
            + 4.5 * (4 * (mz / Mpz) ^ 3 / Mpz) * (my / Mpy) ^ 2)) (at mz)"
    by (auto intro!: derivative_eq_intros simp: Mpz0)
  have t1: "2 * (mz / Mpz) / Mpz = 2 * mz / Mpz ^ 2" by (simp add: power2_eq_square)
  have t2: "3.5 * (fx / Py) ^ 2 * (2 * mz / Mpz ^ 2) = 7.0 * fx ^ 2 * mz / (Mpz ^ 2 * Py ^ 2)"
    by (simp add: power_divide power2_eq_square mult_ac)
  have t3: "4.5 * (4 * (mz / Mpz) ^ 3 / Mpz) * (my / Mpy) ^ 2 = 18.0 * my ^ 2 * mz ^ 3 / (Mpy ^ 2 * Mpz ^ 4)"
  proof -
    have "Mpz ^ 4 = Mpz ^ 3 * Mpz" using power_Suc2[of Mpz 3] by simp
    then show ?thesis by (simp add: power_divide mult_ac)
  qed
  have G5: "SteelSection_G self fx my mz ! 5 =
      7.0 * fx ^ 2 * mz / (Mpz ^ 2 * Py ^ 2) + 2 * mz / Mpz ^ 2 + 18.0 * my ^ 2 * mz ^ 3 / (Mpy ^ 2 * Mpz ^ 4)"
    by (simp add: SteelSection_G_def Let_def Py_def Mpy_def Mpz_def)
  have eq: "2 * (mz / Mpz) / Mpz + 3.5 * (fx / Py) ^ 2 * (2 * (mz / Mpz) / Mpz)
            + 4.5 * (4 * (mz / Mpz) ^ 3 / Mpz) * (my / Mpy) ^ 2 = SteelSection_G self fx my mz ! 5"
    unfolding G5 t1 t2 t3 by simp
  show ?thesis
    unfolding SteelSection_Phi_unfold Py_def[symmetric] Mpy_def[symmetric] Mpz_def[symmetric]
    using D unfolding eq .
qed

lemma SteelSection_G_my:
  assumes "fy (material self) * Zy self \<noteq> 0"
  shows "((\<lambda>my. SteelSection_Phi self fx my mz) has_real_derivative
            (SteelSection_G self fx my mz ! 4
               + (4 * my ^ 3 / (fy (material self) * Zy self) ^ 4
                    - 2 * my / (fy (material self) * Zy self) ^ 2)))
           (at my)"
proof -
  define Py where "Py = fy (material self) * A self"
  define Mpy where "Mpy = fy (material self) * Zy self"
  define Mpz where "Mpz = fy (material self) * Zz self"
  have Mpy0: "Mpy \<noteq> 0" using assms by (simp add: Mpy_def)
  have D: "((\<lambda>my. (fx / Py) ^ 2 + (mz / Mpz) ^ 2 + (my / Mpy) ^ 4 + 3.5 * (fx / Py) ^ 2 * (mz / Mpz) ^ 2
            + 3 * (fx / Py) ^ 6 * (my / Mpy) ^ 2 + 4.5 * (mz / Mpz) ^ 4 * (my / Mpy) ^ 2)
          has_real_derivative
          (4 * (my / Mpy) ^ 3 / Mpy + 3 * (fx / Py) ^ 6 * (2 * (my / Mpy) / Mpy)
            + 4.5 * (mz / Mpz) ^ 4 * (2 * (my / Mpy) / Mpy))) (at my)"
    by (auto intro!: derivative_eq_intros simp: Mpy0)
  have t1: "4 * (my / Mpy) ^ 3 / Mpy = 4 * my ^ 3 / Mpy ^ 4"
  proof -
    have "Mpy ^ 4 = Mpy ^ 3 * Mpy" using power_Suc2[of Mpy 3] by simp
    then show ?thesis by (simp add: power_divide mult_ac)
  qed
  have t2: "3 * (fx / Py) ^ 6 * (2 * (my / Mpy) / Mpy) = 6 * fx ^ 6 * my / (Mpy ^ 2 * Py ^ 6)"
    by (simp add: power_divide power2_eq_square mult_ac)
  have t3: "4.5 * (mz / Mpz) ^ 4 * (2 * (my / Mpy) / Mpy) = 9.0 * my * mz ^ 4 / (Mpy ^ 2 * Mpz ^ 4)"
    by (simp add: power_divide power2_eq_square mult_ac)
  have G4: "SteelSection_G self fx my mz ! 4 =
      6 * fx ^ 6 * my / (Mpy ^ 2 * Py ^ 6) + 2 * my / Mpy ^ 2 + 9.0 * my * mz ^ 4 / (Mpy ^ 2 * Mpz ^ 4)"
    by (simp add: SteelSection_G_def Let_def Py_def Mpy_def Mpz_def)
  have eq: "4 * (my / Mpy) ^ 3 / Mpy + 3 * (fx / Py) ^ 6 * (2 * (my / Mpy) / Mpy)
            + 4.5 * (mz / Mpz) ^ 4 * (2 * (my / Mpy) / Mpy)
          = SteelSection_G self fx my mz ! 4 + (4 * my ^ 3 / Mpy ^ 4 - 2 * my / Mpy ^ 2)"
    unfolding G4 t1 t2 t3 by simp
  show ?thesis
    unfolding SteelSection_Phi_unfold Py_def[symmetric] Mpy_def[symmetric] Mpz_def[symmetric]
    using D unfolding eq .
qed

subsection \<open>Construction of a steel section\<close>

text \<open>
  C3. For every argument tuple, \<open>SteelSection.__init__\<close> raises \<open>TypeError\<close> in the
  call of \<open>Section.__init__\<close>, which receives seven arguments for six parameters. The
  attribute dictionary of the object is then what it was before the call: no attribute
  has been assigned, whether or not the model holds the material.
\<close>

theorem SteelSection_init_TypeError:
  "SteelSection_init model name a iy iz j zy zz material_name self = (self, Some TypeError)"
  by (simp add: SteelSection_init_def Section_init_def bind_args_def)

subsection \<open>Mesh generation: failures\<close>




subsection \<open>Mesh generation: the column count is not clamped\<close>

text \<open>
  C5. The claim takes the column count as \<open>round(width / mesh_size)\<close> clamped to at
  least one, as the row count is by \<open>max(1, ...)\<close>. The code clamps the rows only: for
  the positive inputs width \<open>0.4\<close>, height \<open>1\<close>, element size \<open>1\<close> and no load, the
  column count rounds to zero and the call raises \<open>ZeroDivisionError\<close> with no node and
  no element created, where the claim promises 2 by 2 nodes and one element.
\<close>

theorem descritize_narrow_wall_raises:
  "0 < width wall_narrow \<and> 0 < height wall_narrow \<and> 0 < mesh_size wall_narrow \<and>
   loads wall_narrow = [] \<and>
   py_round (width wall_narrow / mesh_size wall_narrow) = 0 \<and>
   max 1 (py_round (height wall_narrow / mesh_size wall_narrow)) = 1 \<and>
   descritize remdups wall_narrow = (wall_narrow, Some ZeroDivisionError) \<and>
   Nodes (fem wall_narrow) = [] \<and> Quads (fem wall_narrow) = []"
  by code_simp

subsection \<open>Mesh generation: determinism\<close>

text \<open>
  C10. Mesh generation is a function of the wall (its dimensions, element size, load
  bands and model): whatever order the set used for deduplication iterates in, the
  resulting model, with its node keys, node positions and element connectivity, and the
  outcome are the same.
\<close>

theorem descritize_deterministic:
  assumes "set_iteration ls1" and "set_iteration ls2"
  shows "descritize ls1 self = descritize ls2 self"
  unfolding descritize_def
  by (simp only: control_points_canonical[OF assms(1)] control_points_canonical[OF assms(2)])

theorem descritize_deterministic_witness:
  "set_iteration remdups \<and> set_iteration (\<lambda>ys. rev (remdups ys)) \<and>
   remdups [0, 3, 1, 2 :: real] \<noteq> rev (remdups [0, 3, 1, 2]) \<and>
   descritize remdups wall_two_bands = descritize (\<lambda>ys. rev (remdups ys)) wall_two_bands"
  using descritize_deterministic[OF set_iteration_remdups set_iteration_rev_remdups, of wall_two_bands]
    set_iteration_remdups set_iteration_rev_remdups
  by simp

subsection \<open>Analysis and the dirty flag\<close>



subsection \<open>Load distribution\<close>

text \<open>
  C1. The claim has one pressure value appended per element, the sum over the bands
  that contain its centroid. The code appends inside the loop over the bands, each time
  the running sum: for two bands over the whole height with pressures 1 and 2, the one
  element of the wall receives the two entries 1 and 3 (both tagged \<open>Case 1\<close>), not the
  single entry 3.
\<close>

theorem overlapping_bands_pressures:
  "map pressures (Quads (fem (fst (analyze remdups (\<lambda>m. m) wall_two_bands))))
     = [[(1, ''Case 1''), (3, ''Case 1'')]] \<and>
   loads wall_two_bands = [(0, 1, 1, 1), (0, 1, 2, 2)] \<and>
   snd (analyze remdups (\<lambda>m. m) wall_two_bands) = None"
  by code_simp

subsection \<open>Gradient of the steel section\<close>

text \<open>
  C2. The claim has \<open>G\<close> equal to the partial derivatives of \<open>Phi\<close>. For the unit
  section at \<open>(fx, my, mz) = (0, 1, 0)\<close> the derivative of \<open>Phi\<close> with respect to
  \<open>my\<close> is 4, from the term \<open>m_y**4\<close>; slot 5 of \<open>G\<close> is 2, from \<open>2*my/Mpy**2\<close>;
  the central difference of the base class gives \<open>4 + 4*epsilon**2\<close>.
\<close>

theorem gradient_my_slot_wrong:
  "((\<lambda>my. SteelSection_Phi unit_section 0 my 0) has_real_derivative 4) (at 1) \<and>
   SteelSection_G unit_section 0 1 0 = [0, 0, 0, 0, 2, 0] \<and>
   Section_G (SteelSection_Phi unit_section) 0 1 0 = [0, 0, 0, 0, 4 + 4 * epsilon ^ 2, 0]"
proof -
  have g: "SteelSection_G unit_section 0 1 0 = [0, 0, 0, 0, 2, 0]"
    by (simp add: SteelSection_G_def unit_section_def)
  have e: "epsilon \<noteq> 0" by (simp add: epsilon_def)
  have "((1 + epsilon) ^ 4 - (1 - epsilon) ^ 4) / (2 * epsilon) = 4 + 4 * epsilon ^ 2"
    using e by (simp add: field_simps power4_eq_xxxx power2_eq_square)
  then have n: "Section_G (SteelSection_Phi unit_section) 0 1 0 = [0, 0, 0, 0, 4 + 4 * epsilon ^ 2, 0]"
    using e by (simp add: Section_G_def unit_Phi)
  show ?thesis using unit_Phi_dmy g n by simp
qed

subsection \<open>Supports\<close>

text \<open>
  C9. \<open>__define_supports\<close> gives every node the restraints of the first edge it lies
  on, in the order left, right, bottom, top, and of that edge only; a node on no edge is
  unchanged. The policy \<open>Free\<close> changes nothing, \<open>Pinned\<close> sets the three translations,
  \<open>Fixed\<close> sets the three translations and the rotations about X and Y, and no policy
  touches the rotation about Z.
\<close>

theorem support_precedence:
  "(isclose (X node) 0 \<longrightarrow> node_support self node = edge_support (left_support self) node) \<and>
   (\<not> isclose (X node) 0 \<and> isclose (X node) (width self) \<longrightarrow>
      node_support self node = edge_support (right_support self) node) \<and>
   (\<not> isclose (X node) 0 \<and> \<not> isclose (X node) (width self) \<and> isclose (Y node) 0 \<longrightarrow>
      node_support self node = edge_support (bot_support self) node) \<and>
   (\<not> isclose (X node) 0 \<and> \<not> isclose (X node) (width self) \<and> \<not> isclose (Y node) 0 \<and>
      isclose (Y node) (height self) \<longrightarrow>
      node_support self node = edge_support (top_support self) node) \<and>
   (\<not> isclose (X node) 0 \<and> \<not> isclose (X node) (width self) \<and> \<not> isclose (Y node) 0 \<and>
      \<not> isclose (Y node) (height self) \<longrightarrow> node_support self node = node) \<and>
   edge_support ''Free'' node = node \<and>
   edge_support ''Pinned'' node = node\<lparr>SupportDX := True, SupportDY := True, SupportDZ := True\<rparr> \<and>
   edge_support ''Fixed'' node =
     node\<lparr>SupportDX := True, SupportDY := True, SupportDZ := True,
          SupportRX := True, SupportRY := True\<rparr> \<and>
   SupportRZ (edge_support support node) = SupportRZ node \<and>
   Nodes (fem (define_supports self)) = map (node_support self) (Nodes (fem self))"
  by (simp add: node_support_def edge_support_def set_fixed_def set_pinned_def define_supports_def)

theorem support_precedence_witness:
  "isclose (X corner_node) (width wall_two_bands) \<and>
   isclose (Y corner_node) (height wall_two_bands) \<and>
   right_support wall_two_bands = ''Pinned'' \<and> top_support wall_two_bands = ''Fixed'' \<and>
   node_support wall_two_bands corner_node =
     corner_node\<lparr>SupportDX := True, SupportDY := True, SupportDZ := True\<rparr> \<and>
   SupportRX (node_support wall_two_bands corner_node) = False \<and>
   SupportRZ (edge_support ''Fixed'' corner_node) = False"
proof -
  have a: "\<not> isclose (X corner_node) 0" "isclose (X corner_node) (width wall_two_bands)"
    "isclose (Y corner_node) (height wall_two_bands)"
    by (simp_all add: isclose_def corner_node_def mk_node_def wall_two_bands_def add_load_def
        RectWall_init_def)
  have b: "right_support wall_two_bands = ''Pinned''" "top_support wall_two_bands = ''Fixed''"
    by (simp_all add: wall_two_bands_def add_load_def RectWall_init_def)
  have c: "SupportRX corner_node = False" "SupportRZ corner_node = False"
    by (simp_all add: corner_node_def mk_node_def)
  show ?thesis
    using support_precedence[where node = corner_node and self = wall_two_bands and support = "''Fixed''"]
      a b c
    by simp
qed

subsection \<open>Mesh generation: connectivity\<close>



subsection \<open>Mesh generation: band boundaries\<close>




end
